theory Spec2Isabelle
  imports Main "HOL-Library.Word"
begin

section \<open>Values, events and responses\<close>

text \<open>
  The handler of \<^verbatim>\<open>src/mailblog/subscription/handler.py\<close> works on dynamically typed
  dictionaries. A value that arrives in a JSON body or sits in a table item is a
  \<open>pyval\<close>; a dictionary is an association list in insertion order, read with
  \<open>map_of\<close> (Python's \<^verbatim>\<open>d.get(k)\<close>). JSON floats are not part of the model.
\<close>

datatype pyval =
    VNone
  | VBool bool
  | VInt int
  | VStr string
  | VList "pyval list"
  | VDict "(string \<times> pyval) list"

text \<open>Python's truth value of an object, as used by \<^verbatim>\<open>if not x\<close> and \<^verbatim>\<open>x and y\<close>.\<close>

fun truthy :: "pyval \<Rightarrow> bool" where
  "truthy VNone = False"
| "truthy (VBool b) = b"
| "truthy (VInt i) = (i \<noteq> 0)"
| "truthy (VStr s) = (s \<noteq> [])"
| "truthy (VList xs) = (xs \<noteq> [])"
| "truthy (VDict d) = (d \<noteq> [])"

text \<open>An item of the table: a dictionary from attribute names to values.\<close>

type_synonym item = "(string \<times> pyval) list"

text \<open>\<^verbatim>\<open>d.get(k)\<close> on an item: the value, or Python's \<^verbatim>\<open>None\<close>.\<close>

definition item_get :: "item \<Rightarrow> string \<Rightarrow> pyval" where
  "item_get d k = (case map_of d k of None \<Rightarrow> VNone | Some v \<Rightarrow> v)"

text \<open>
  \<^verbatim>\<open>d[k] = v\<close> on a dictionary: an existing key keeps its place, a new key goes last.
\<close>

fun item_set :: "item \<Rightarrow> string \<Rightarrow> pyval \<Rightarrow> item" where
  "item_set [] k v = [(k, v)]"
| "item_set (p # ps) k v = (if fst p = k then (k, v) # ps else p # item_set ps k v)"

text \<open>
  The query parameters of an API Gateway proxy event: JSON \<^verbatim>\<open>null\<close> when the request
  has no query string, otherwise a dictionary from names to strings.
\<close>

datatype query_params = QNull | QDict "(string \<times> string) list"

text \<open>
  The API Gateway event, as far as the handler reads it. A field that is \<open>None\<close> is a
  key missing from the event dictionary, so that \<^verbatim>\<open>event["k"]\<close> raises \<^verbatim>\<open>KeyError\<close>.
\<close>

record event =
  httpMethod :: "string option"
  path :: "string option"
  body :: "pyval option"
  queryStringParameters :: "query_params option"

record response =
  statusCode :: int
  resp_headers :: "(string \<times> pyval) list"
  resp_body :: string

text \<open>The exceptions the handler can meet; all of them are caught by \<^verbatim>\<open>except Exception\<close>.\<close>

datatype py_error =
    KeyError
  | ValueError
  | AttributeError
  | ClientError
  | FileNotFoundError

section \<open>The collaborators\<close>

text \<open>
  One message handed to SES by \<^verbatim>\<open>send_email\<close>.
\<close>

record mail =
  Source :: string
  ToAddresses :: "string list"
  Subject :: string
  Html :: string
  Text :: string

text \<open>
  What persists between invocations: the DynamoDB table, keyed by the \<^verbatim>\<open>email\<close>
  attribute, and the messages SES has accepted so far.
\<close>

record world =
  table :: "string \<rightharpoonup> item"
  outbox :: "mail list"

text \<open>
  What one invocation reads from its surroundings: the configuration, the JSON parser,
  whether each collaborator call succeeds, the template files, the bytes returned by
  \<^verbatim>\<open>os.urandom(16)\<close> and the two readings of the clock
  (\<^verbatim>\<open>datetime.datetime.now().isoformat()\<close>).
\<close>

record env =
  DOMAIN :: string
  FROM_EMAIL :: string
  json_loads :: "string \<Rightarrow> pyval option"
  get_item_ok :: bool
  put_item_ok :: bool
  ses_ok :: bool
  files :: "string \<rightharpoonup> string"
  urandom16 :: "8 word list"
  now1 :: string
  now2 :: string

definition headers :: "(string \<times> pyval) list" where
  "headers =
     [(''Access-Control-Allow-Origin'', VStr ''*''),
      (''Access-Control-Allow-Credentials'', VBool True)]"

text \<open>
  \<^verbatim>\<open>json.dumps({"message": m})\<close> for a message of printable ASCII without quote or
  backslash, which every message of the handler is.
\<close>

definition json_dumps_message :: "string \<Rightarrow> string" where
  \<open>json_dumps_message m = ''{"message": "'' @ m @ ''"}''\<close>

text \<open>The response envelope every return statement of the handler builds.\<close>

definition respond :: "int \<Rightarrow> string \<Rightarrow> response" where
  "respond code m =
     \<lparr>statusCode = code, resp_headers = headers, resp_body = json_dumps_message m\<rparr>"

text \<open>
  \<^verbatim>\<open>bytes.hex()\<close>: two lower-case hexadecimal digits for each byte.
\<close>

definition hex_digit :: "nat \<Rightarrow> char" where
  "hex_digit n = ''0123456789abcdef'' ! n"

definition hex_byte :: "8 word \<Rightarrow> string" where
  "hex_byte b = [hex_digit (unat b div 16), hex_digit (unat b mod 16)]"

definition hex :: "8 word list \<Rightarrow> string" where
  "hex bs = concat (map hex_byte bs)"

text \<open>
  \<^verbatim>\<open>s.replace(old, new)\<close>: every occurrence of \<open>old\<close>, left to right, without overlap.
  (For an empty \<open>old\<close> Python inserts \<open>new\<close> around every character: at the start,
  between the characters and at the end.)
\<close>

function str_replace :: "string \<Rightarrow> string \<Rightarrow> string \<Rightarrow> string" where
  "str_replace old new s =
     (if old = [] then new @ concat (map (\<lambda>c. c # new) s)
      else if s = [] then []
      else if take (length old) s = old
        then new @ str_replace old new (drop (length old) s)
      else hd s # str_replace old new (tl s))"
  by pat_completeness auto
termination
  by (relation "measure (\<lambda>(old, new, s). length s)") auto

declare str_replace.simps [simp del]

text \<open>
  \<^verbatim>\<open>load_body\<close>: the body of the event, parsed when it is a string. A missing key and
  a string that is not JSON both raise \<^verbatim>\<open>ValueError\<close>.
\<close>

definition load_body :: "env \<Rightarrow> event \<Rightarrow> py_error + pyval" where
  "load_body env ev =
     (case body ev of
        None \<Rightarrow> Inl ValueError
      | Some (VStr s) \<Rightarrow>
          (case json_loads env s of None \<Rightarrow> Inl ValueError | Some v \<Rightarrow> Inr v)
      | Some b \<Rightarrow> Inr b)"

text \<open>
  \<^verbatim>\<open>body.get("email")\<close>: only a dictionary has \<^verbatim>\<open>get\<close>; on any other value the
  attribute lookup raises \<^verbatim>\<open>AttributeError\<close>.
\<close>

definition body_get :: "pyval \<Rightarrow> string \<Rightarrow> py_error + pyval" where
  "body_get b k =
     (case b of
        VDict d \<Rightarrow> Inr (item_get d k)
      | _ \<Rightarrow> Inl AttributeError)"

text \<open>
  \<^verbatim>\<open>query_params.get(k)\<close>: \<open>None\<close> is Python's \<^verbatim>\<open>None\<close>; \<^verbatim>\<open>null\<close> parameters have
  no \<^verbatim>\<open>get\<close>.
\<close>

definition query_get :: "query_params \<Rightarrow> string \<Rightarrow> py_error + string option" where
  "query_get q k =
     (case q of
        QNull \<Rightarrow> Inl AttributeError
      | QDict d \<Rightarrow> Inr (map_of d k))"

text \<open>\<^verbatim>\<open>not s\<close> for a value that is a string or \<^verbatim>\<open>None\<close>.\<close>

definition falsy :: "string option \<Rightarrow> bool" where
  "falsy s = (case s of None \<Rightarrow> True | Some t \<Rightarrow> t = [])"

text \<open>
  \<^verbatim>\<open>get_user\<close>: \<^verbatim>\<open>table.get_item(Key={"email": email})\<close> and then
  \<^verbatim>\<open>response.get("Item")\<close>, which is \<^verbatim>\<open>None\<close> (here \<open>None\<close>) when the table has no
  item under the key. The call raises when DynamoDB fails.
\<close>

definition get_user :: "env \<Rightarrow> world \<Rightarrow> string \<Rightarrow> py_error + item option" where
  "get_user env w email =
     (if get_item_ok env then Inr (table w email) else Inl ClientError)"

text \<open>
  \<^verbatim>\<open>table.put_item(Item=item)\<close>: the item replaces whatever the table holds under the
  item's own \<^verbatim>\<open>email\<close> attribute, the table's key. An item without a string key is
  rejected, and a call that fails writes nothing.
\<close>

definition put_item :: "env \<Rightarrow> world \<Rightarrow> item \<Rightarrow> py_error + world" where
  "put_item env w it =
     (case map_of it ''email'' of
        Some (VStr k) \<Rightarrow>
          (if put_item_ok env then Inr (w\<lparr>table := (table w)(k \<mapsto> it)\<rparr>)
           else Inl ClientError)
      | _ \<Rightarrow> Inl ClientError)"

definition add_user :: "env \<Rightarrow> world \<Rightarrow> item \<Rightarrow> py_error + world" where
  "add_user env w it = put_item env w it"

text \<open>\<^verbatim>\<open>send_email\<close>: one message to one address through SES.\<close>

definition send_email ::
  "env \<Rightarrow> world \<Rightarrow> string \<Rightarrow> string \<Rightarrow> string \<times> string \<Rightarrow> py_error + world" where
  "send_email env w email subject hb =
     (if ses_ok env
      then Inr (w\<lparr>outbox := outbox w @
             [\<lparr>Source = FROM_EMAIL env, ToAddresses = [email], Subject = subject,
               Html = fst hb, Text = snd hb\<rparr>]\<rparr>)
      else Inl ClientError)"

text \<open>\<^verbatim>\<open>open(name).read()\<close>: the text of the file, or \<^verbatim>\<open>FileNotFoundError\<close>.\<close>

definition read_file :: "env \<Rightarrow> string \<Rightarrow> py_error + string" where
  "read_file env name =
     (case files env name of None \<Rightarrow> Inl FileNotFoundError | Some t \<Rightarrow> Inr t)"

text \<open>The response of every \<^verbatim>\<open>except Exception\<close> block.\<close>

definition internal_server_error :: response where
  "internal_server_error = respond 500 ''Internal server error''"

text \<open>\<^verbatim>\<open>not user\<close> for the result of \<^verbatim>\<open>get_user\<close>: \<^verbatim>\<open>None\<close> or an empty dictionary.\<close>

definition no_user :: "item option \<Rightarrow> bool" where
  "no_user user = (case user of None \<Rightarrow> True | Some u \<Rightarrow> u = [])"

section \<open>The operations\<close>

text \<open>
  \<^verbatim>\<open>subscribe\<close>. The key of the table is a string attribute, so \<^verbatim>\<open>get_item\<close> raises
  for an \<^verbatim>\<open>email\<close> of any other type.
\<close>

definition subscribe :: "env \<Rightarrow> world \<Rightarrow> event \<Rightarrow> response \<times> world" where
  "subscribe env w ev =
     (case load_body env ev of
        Inl err \<Rightarrow> (internal_server_error, w)
      | Inr b \<Rightarrow>
     (case body_get b ''email'' of
        Inl err \<Rightarrow> (internal_server_error, w)
      | Inr email_v \<Rightarrow>
          if \<not> truthy email_v then (respond 400 ''Email is required'', w)
          else
     (case email_v of
        VStr email \<Rightarrow>
     (case get_user env w email of
        Inl err \<Rightarrow> (internal_server_error, w)
      | Inr user \<Rightarrow>
          if \<not> no_user user \<and> truthy (item_get (the user) ''verified'')
          then (respond 400 ''User already subscribed'', w)
          else
            let token = hex (urandom16 env);
                it = [(''email'', VStr email),
                      (''token'', VStr token),
                      (''verified'', VBool False),
                      (''created_at'', VStr (now1 env)),
                      (''updated_at'', VStr (now2 env))]
            in
     (case add_user env w it of
        Inl err \<Rightarrow> (internal_server_error, w)
      | Inr w1 \<Rightarrow>
          let verify_url = DOMAIN env @ ''/verify?email='' @ email @ ''&token='' @ token;
              unsubscribe_url =
                DOMAIN env @ ''/unsubscribe?email='' @ email @ ''&token='' @ token
          in
     (case read_file env ''templates/verify.html'' of
        Inl err \<Rightarrow> (internal_server_error, w1)
      | Inr html0 \<Rightarrow>
          let html = str_replace ''{{unsubscribe_url}}'' unsubscribe_url
                       (str_replace ''{{verify_url}}'' verify_url html0)
          in
     (case read_file env ''templates/verify.txt'' of
        Inl err \<Rightarrow> (internal_server_error, w1)
      | Inr text0 \<Rightarrow>
          let txt = str_replace ''{{verify_url}}'' verify_url text0
          in
     (case send_email env w1 email ''Verify your email'' (html, txt) of
        Inl err \<Rightarrow> (internal_server_error, w1)
      | Inr w2 \<Rightarrow> (respond 200 ''User subscribed successfully'', w2))))))
      | _ \<Rightarrow> (internal_server_error, w))))"

text \<open>
  \<^verbatim>\<open>unsubscribe\<close>. The supplied token is a string, and only a string equals a string,
  so \<^verbatim>\<open>user.get("token") != token\<close> is the inequality of values.
\<close>

definition unsubscribe :: "env \<Rightarrow> world \<Rightarrow> event \<Rightarrow> response \<times> world" where
  "unsubscribe env w ev =
     (case queryStringParameters ev of
        None \<Rightarrow> (internal_server_error, w)
      | Some query_params \<Rightarrow>
     (case query_get query_params ''email'' of
        Inl err \<Rightarrow> (internal_server_error, w)
      | Inr email \<Rightarrow>
     (case query_get query_params ''token'' of
        Inl err \<Rightarrow> (internal_server_error, w)
      | Inr token \<Rightarrow>
          if falsy email \<or> falsy token
          then (respond 400 ''Email and token are required'', w)
          else
     (case get_user env w (the email) of
        Inl err \<Rightarrow> (internal_server_error, w)
      | Inr user \<Rightarrow>
          if no_user user \<or> item_get (the user) ''token'' \<noteq> VStr (the token)
          then (respond 400 ''Failed to unsubscribe'', w)
          else
            let user1 = item_set (the user) ''verified'' (VBool False);
                user2 = item_set user1 ''updated_at'' (VStr (now1 env))
            in
     (case put_item env w user2 of
        Inl err \<Rightarrow> (internal_server_error, w)
      | Inr w1 \<Rightarrow> (respond 200 ''You are successfully unsubscribed'', w1))))))"

text \<open>\<^verbatim>\<open>verify\<close>.\<close>

definition verify :: "env \<Rightarrow> world \<Rightarrow> event \<Rightarrow> response \<times> world" where
  "verify env w ev =
     (case queryStringParameters ev of
        None \<Rightarrow> (internal_server_error, w)
      | Some query_params \<Rightarrow>
     (case query_get query_params ''email'' of
        Inl err \<Rightarrow> (internal_server_error, w)
      | Inr email \<Rightarrow>
     (case query_get query_params ''token'' of
        Inl err \<Rightarrow> (internal_server_error, w)
      | Inr token \<Rightarrow>
          if falsy email \<or> falsy token
          then (respond 400 ''Email and token are required'', w)
          else
     (case get_user env w (the email) of
        Inl err \<Rightarrow> (internal_server_error, w)
      | Inr user \<Rightarrow>
          if no_user user \<or> item_get (the user) ''token'' \<noteq> VStr (the token)
          then (respond 400 ''User verification failed'', w)
          else
            let user1 = item_set (the user) ''verified'' (VBool True);
                user2 = item_set user1 ''updated_at'' (VStr (now1 env))
            in
     (case put_item env w user2 of
        Inl err \<Rightarrow> (internal_server_error, w)
      | Inr w1 \<Rightarrow>
     (case read_file env ''templates/verified.html'' of
        Inl err \<Rightarrow> (internal_server_error, w1)
      | Inr html0 \<Rightarrow>
          let unsubscribe_url =
                DOMAIN env @ ''/unsubscribe?email='' @ the email @ ''&token='' @ the token;
              html = str_replace ''{{unsubscribe_url}}'' unsubscribe_url html0
          in
     (case read_file env ''templates/verified.txt'' of
        Inl err \<Rightarrow> (internal_server_error, w1)
      | Inr text0 \<Rightarrow>
          let txt = str_replace ''{{unsubscribe_url}}'' unsubscribe_url text0
          in
     (case send_email env w1 (the email) ''Email verified'' (html, txt) of
        Inl err \<Rightarrow> (internal_server_error, w1)
      | Inr w2 \<Rightarrow> (respond 200 ''User verified successfully'', w2)))))))))"

text \<open>\<^verbatim>\<open>lambda_handler\<close>: the dispatch on method and path.\<close>

definition lambda_handler :: "env \<Rightarrow> world \<Rightarrow> event \<Rightarrow> response \<times> world" where
  "lambda_handler env w ev =
     (case httpMethod ev of
        None \<Rightarrow> (internal_server_error, w)
      | Some http_method \<Rightarrow>
     (case path ev of
        None \<Rightarrow> (internal_server_error, w)
      | Some p \<Rightarrow>
          if http_method = ''POST'' \<and> p = ''/subscribe'' then subscribe env w ev
          else if http_method = ''GET'' \<and> p = ''/unsubscribe'' then unsubscribe env w ev
          else if http_method = ''GET'' \<and> p = ''/verify'' then verify env w ev
          else (respond 405 ''Method not allowed'', w)))"

section \<open>Example requests and states\<close>

text \<open>
  A configuration in which every collaborator works, with small templates, and one in
  which SES refuses the message.
\<close>

definition ex_env :: env where
  "ex_env =
     \<lparr>DOMAIN = ''https://blog.example'',
      FROM_EMAIL = ''news@blog.example'',
      json_loads = (\<lambda>s. None),
      get_item_ok = True,
      put_item_ok = True,
      ses_ok = True,
      files =
        [''templates/verify.html'' \<mapsto> ''<a href={{verify_url}}>yes</a> <a href={{unsubscribe_url}}>no</a>'',
         ''templates/verify.txt'' \<mapsto> ''Verify: {{verify_url}}'',
         ''templates/verified.html'' \<mapsto> ''<a href={{unsubscribe_url}}>leave</a>'',
         ''templates/verified.txt'' \<mapsto> ''Leave: {{unsubscribe_url}}''],
      urandom16 = [0, 1, 2, 3, 4, 5, 6, 7, 8, 9, 10, 11, 12, 13, 14, 15],
      now1 = ''2024-05-01T10:00:00.000001'',
      now2 = ''2024-05-01T10:00:00.000002''\<rparr>"

definition ex_env_ses_down :: env where
  "ex_env_ses_down = ex_env\<lparr>ses_ok := False\<rparr>"

definition ex_env2 :: env where
  "ex_env2 =
     ex_env\<lparr>urandom16 := [16, 17, 18, 19, 20, 21, 22, 23, 24, 25, 26, 27, 28, 29, 30, 31],
            now1 := ''2024-05-02T09:30:00.000001'',
            now2 := ''2024-05-02T09:30:00.000002''\<rparr>"

text \<open>A subscriber record, pending or verified, and a table that holds one record.\<close>

definition ex_user :: "bool \<Rightarrow> item" where
  "ex_user v =
     [(''email'', VStr ''a@x.com''),
      (''token'', VStr ''00112233445566778899aabbccddeeff''),
      (''verified'', VBool v),
      (''created_at'', VStr ''2024-04-01T08:00:00.000001''),
      (''updated_at'', VStr ''2024-04-01T08:00:00.000002'')]"

definition ex_world :: "bool \<Rightarrow> world" where
  "ex_world v = \<lparr>table = [''a@x.com'' \<mapsto> ex_user v], outbox = []\<rparr>"

definition ex_empty_world :: world where
  "ex_empty_world = \<lparr>table = Map.empty, outbox = []\<rparr>"

text \<open>
  \<^verbatim>\<open>GET p?email=e&token=t\<close>, \<^verbatim>\<open>GET p\<close> without a query string, and
  \<^verbatim>\<open>POST /subscribe\<close> with the body \<^verbatim>\<open>{"email": e}\<close>.
\<close>

definition ex_get :: "string \<Rightarrow> string \<Rightarrow> string \<Rightarrow> event" where
  "ex_get p e t =
     \<lparr>httpMethod = Some ''GET'', path = Some p, body = Some VNone,
      queryStringParameters = Some (QDict [(''email'', e), (''token'', t)])\<rparr>"

definition ex_get_bare :: "string \<Rightarrow> event" where
  "ex_get_bare p =
     \<lparr>httpMethod = Some ''GET'', path = Some p, body = Some VNone,
      queryStringParameters = Some QNull\<rparr>"

definition ex_post :: "string \<Rightarrow> event" where
  "ex_post e =
     \<lparr>httpMethod = Some ''POST'', path = Some ''/subscribe'',
      body = Some (VDict [(''email'', VStr e)]),
      queryStringParameters = Some QNull\<rparr>"

section \<open>Basic facts\<close>

lemma statusCode_respond: "statusCode (respond c m) = c"
  and resp_body_respond: "resp_body (respond c m) = json_dumps_message m"
  and resp_headers_respond: "resp_headers (respond c m) = headers"
  by (simp_all add: respond_def)

lemma map_of_item_set: "map_of (item_set d k v) = (map_of d)(k \<mapsto> v)"
  by (induction d) (auto simp: fun_eq_iff)

lemma item_get_item_set:
  "item_get (item_set d k v) k' = (if k' = k then v else item_get d k')"
  by (simp add: item_get_def map_of_item_set)

lemma hex_digit_inj: "i < 16 \<Longrightarrow> j < 16 \<Longrightarrow> hex_digit i = hex_digit j \<Longrightarrow> i = j"
proof -
  have d: "distinct ''0123456789abcdef''" by simp
  have l: "length ''0123456789abcdef'' = 16" by simp
  assume "i < 16" "j < 16" "hex_digit i = hex_digit j"
  then show ?thesis
    unfolding hex_digit_def using d l nth_eq_iff_index_eq by metis
qed

lemma hex_byte_inj: "hex_byte a = hex_byte b \<Longrightarrow> a = b"
proof -
  assume h: "hex_byte a = hex_byte b"
  have "unat a < 256" and "unat b < 256"
    using unsigned_less [of a, where ?'a = nat] unsigned_less [of b, where ?'a = nat]
    by simp_all
  then have hi: "unat a div 16 < 16" "unat b div 16 < 16"
    by simp_all
  have lo: "unat a mod 16 < 16" "unat b mod 16 < 16"
    by simp_all
  from h have "hex_digit (unat a div 16) = hex_digit (unat b div 16)"
    and "hex_digit (unat a mod 16) = hex_digit (unat b mod 16)"
    by (simp_all add: hex_byte_def)
  then have "unat a div 16 = unat b div 16" and "unat a mod 16 = unat b mod 16"
    using hi lo by (blast intro: hex_digit_inj)+
  then have "unat a = unat b"
    by (metis div_mult_mod_eq)
  then show ?thesis by (simp add: word_unat_eq_iff)
qed

lemma hex_inj: "length xs = length ys \<Longrightarrow> hex xs = hex ys \<Longrightarrow> xs = ys"
proof (induction xs ys rule: list_induct2)
  case Nil
  then show ?case by simp
next
  case (Cons x xs y ys)
  from Cons.prems have "hex_byte x @ hex xs = hex_byte y @ hex ys"
    by (simp add: hex_def)
  moreover have "length (hex_byte x) = length (hex_byte y)"
    by (simp add: hex_byte_def)
  ultimately have "hex_byte x = hex_byte y" "hex xs = hex ys"
    by simp_all
  with Cons.IH show ?case by (simp add: hex_byte_inj)
qed

lemma length_hex: "length (hex bs) = 2 * length bs"
  by (induction bs) (simp_all add: hex_def hex_byte_def)

section \<open>The paths through the operations\<close>

lemma verify_success:
  assumes "queryStringParameters ev = Some (QDict q)"
    and "map_of q ''email'' = Some email" and "email \<noteq> []"
    and "map_of q ''token'' = Some token" and "token \<noteq> []"
    and "table w email = Some user"
    and "map_of user ''email'' = Some (VStr email)"
    and "map_of user ''token'' = Some (VStr token)"
    and "get_item_ok env" and "put_item_ok env" and "ses_ok env"
    and "files env ''templates/verified.html'' = Some html0"
    and "files env ''templates/verified.txt'' = Some text0"
  shows "verify env w ev =
     (respond 200 ''User verified successfully'',
      w\<lparr>table := (table w)(email \<mapsto>
           item_set (item_set user ''verified'' (VBool True)) ''updated_at'' (VStr (now1 env))),
        outbox := outbox w @
          [\<lparr>Source = FROM_EMAIL env, ToAddresses = [email], Subject = ''Email verified'',
            Html = str_replace ''{{unsubscribe_url}}''
                     (DOMAIN env @ ''/unsubscribe?email='' @ email @ ''&token='' @ token) html0,
            Text = str_replace ''{{unsubscribe_url}}''
                     (DOMAIN env @ ''/unsubscribe?email='' @ email @ ''&token='' @ token) text0\<rparr>]\<rparr>)"
proof -
  from assms(8) have "user \<noteq> []" by auto
  with assms show ?thesis
    by (simp add: verify_def query_get_def falsy_def get_user_def no_user_def item_get_def
        put_item_def map_of_item_set read_file_def send_email_def Let_def)
qed

lemma unsubscribe_success:
  assumes "queryStringParameters ev = Some (QDict q)"
    and "map_of q ''email'' = Some email" and "email \<noteq> []"
    and "map_of q ''token'' = Some token" and "token \<noteq> []"
    and "table w email = Some user"
    and "map_of user ''email'' = Some (VStr email)"
    and "map_of user ''token'' = Some (VStr token)"
    and "get_item_ok env" and "put_item_ok env"
  shows "unsubscribe env w ev =
     (respond 200 ''You are successfully unsubscribed'',
      w\<lparr>table := (table w)(email \<mapsto>
           item_set (item_set user ''verified'' (VBool False)) ''updated_at'' (VStr (now1 env)))\<rparr>)"
proof -
  from assms(8) have "user \<noteq> []" by auto
  with assms show ?thesis
    by (simp add: unsubscribe_def query_get_def falsy_def get_user_def no_user_def item_get_def
        put_item_def map_of_item_set Let_def)
qed

lemma verify_rejected:
  assumes "queryStringParameters ev = Some (QDict q)"
    and "map_of q ''email'' = Some email" and "email \<noteq> []"
    and "map_of q ''token'' = Some token" and "token \<noteq> []"
    and "get_item_ok env"
    and "no_user (table w email) \<or> item_get (the (table w email)) ''token'' \<noteq> VStr token"
  shows "verify env w ev = (respond 400 ''User verification failed'', w)"
  using assms
  by (simp add: verify_def query_get_def falsy_def get_user_def)

lemma unsubscribe_rejected:
  assumes "queryStringParameters ev = Some (QDict q)"
    and "map_of q ''email'' = Some email" and "email \<noteq> []"
    and "map_of q ''token'' = Some token" and "token \<noteq> []"
    and "get_item_ok env"
    and "no_user (table w email) \<or> item_get (the (table w email)) ''token'' \<noteq> VStr token"
  shows "unsubscribe env w ev = (respond 400 ''Failed to unsubscribe'', w)"
  using assms
  by (simp add: unsubscribe_def query_get_def falsy_def get_user_def)

lemma subscribe_success:
  assumes "load_body env ev = Inr (VDict d)"
    and "map_of d ''email'' = Some (VStr email)" and "email \<noteq> []"
    and "no_user (table w email) \<or> \<not> truthy (item_get (the (table w email)) ''verified'')"
    and "get_item_ok env" and "put_item_ok env" and "ses_ok env"
    and "files env ''templates/verify.html'' = Some html0"
    and "files env ''templates/verify.txt'' = Some text0"
  shows "subscribe env w ev =
     (respond 200 ''User subscribed successfully'',
      w\<lparr>table := (table w)(email \<mapsto>
           [(''email'', VStr email),
            (''token'', VStr (hex (urandom16 env))),
            (''verified'', VBool False),
            (''created_at'', VStr (now1 env)),
            (''updated_at'', VStr (now2 env))]),
        outbox := outbox w @
          [\<lparr>Source = FROM_EMAIL env, ToAddresses = [email], Subject = ''Verify your email'',
            Html = str_replace ''{{unsubscribe_url}}''
                     (DOMAIN env @ ''/unsubscribe?email='' @ email @ ''&token='' @
                        hex (urandom16 env))
                     (str_replace ''{{verify_url}}''
                        (DOMAIN env @ ''/verify?email='' @ email @ ''&token='' @
                           hex (urandom16 env)) html0),
            Text = str_replace ''{{verify_url}}''
                     (DOMAIN env @ ''/verify?email='' @ email @ ''&token='' @
                        hex (urandom16 env)) text0\<rparr>]\<rparr>)"
  using assms
  by (auto simp add: subscribe_def body_get_def item_get_def get_user_def
      add_user_def put_item_def read_file_def send_email_def Let_def)

text \<open>What a subscribe call that answers 200 has done.\<close>

lemma subscribe_200:
  assumes "statusCode (fst (subscribe env w ev)) = 200"
    and "load_body env ev = Inr (VDict d)"
    and "map_of d ''email'' = Some (VStr email)"
  shows "email \<noteq> []"
    and "table (snd (subscribe env w ev)) =
          (table w)(email \<mapsto>
           [(''email'', VStr email),
            (''token'', VStr (hex (urandom16 env))),
            (''verified'', VBool False),
            (''created_at'', VStr (now1 env)),
            (''updated_at'', VStr (now2 env))])"
  using assms
  by (auto simp add: subscribe_def body_get_def item_get_def get_user_def
      add_user_def put_item_def read_file_def send_email_def Let_def
      internal_server_error_def statusCode_respond
      split: sum.splits option.splits if_splits)

text \<open>What an unsubscribe call that answers 200 has met.\<close>

lemma unsubscribe_200:
  assumes "statusCode (fst (unsubscribe env w ev)) = 200"
    and "queryStringParameters ev = Some (QDict q)"
    and "map_of q ''email'' = Some email"
    and "map_of q ''token'' = Some token"
    and "table w email = Some user"
  shows "email \<noteq> []" and "token \<noteq> []" and "get_item_ok env" and "put_item_ok env"
    and "map_of user ''token'' = Some (VStr token)"
  using assms
  by (auto simp add: unsubscribe_def query_get_def falsy_def get_user_def no_user_def
      put_item_def map_of_item_set internal_server_error_def statusCode_respond item_get_def
      Let_def split: option.splits if_splits pyval.splits)

text \<open>Every way an unsubscribe call and a verify call can end.\<close>

lemma unsubscribe_outcomes:
  "(statusCode (fst (unsubscribe env w ev)) = 200
        \<and> (\<exists>email user k. table w email = Some user
              \<and> map_of user ''email'' = Some (VStr k)
              \<and> snd (unsubscribe env w ev) =
                  w\<lparr>table := (table w)(k \<mapsto>
                      item_set (item_set user ''verified'' (VBool False))
                        ''updated_at'' (VStr (now1 env)))\<rparr>))
      \<or> (statusCode (fst (unsubscribe env w ev)) \<in> {400, 500}
        \<and> snd (unsubscribe env w ev) = w)"
proof (cases "queryStringParameters ev")
  case None
  then show ?thesis
    by (simp add: unsubscribe_def internal_server_error_def statusCode_respond)
next
  case (Some qp)
  show ?thesis
  proof (cases qp)
    case QNull
    with Some show ?thesis
      by (simp add: unsubscribe_def query_get_def internal_server_error_def statusCode_respond)
  next
    case (QDict q)
    with Some have qd: "queryStringParameters ev = Some (QDict q)"
      by simp
    show ?thesis
    proof (cases "falsy (map_of q ''email'') \<or> falsy (map_of q ''token'')")
      case True
      with qd show ?thesis
        by (simp add: unsubscribe_def query_get_def statusCode_respond)
    next
      case False
      then obtain email token
        where e: "map_of q ''email'' = Some email" "email \<noteq> []"
          and t: "map_of q ''token'' = Some token" "token \<noteq> []"
        by (auto simp add: falsy_def split: option.splits)
      show ?thesis
      proof (cases "get_item_ok env \<and> \<not> no_user (table w email)
                     \<and> item_get (the (table w email)) ''token'' = VStr token")
        case False
        with qd e t show ?thesis
          by (auto simp add: unsubscribe_def query_get_def falsy_def get_user_def
              internal_server_error_def statusCode_respond)
      next
        case True
        then obtain user
          where u: "table w email = Some user" "user \<noteq> []"
            "item_get user ''token'' = VStr token" and g: "get_item_ok env"
          by (auto simp add: no_user_def split: option.splits)
        let ?u2 = "item_set (item_set user ''verified'' (VBool False))
                     ''updated_at'' (VStr (now1 env))"
        have step: "unsubscribe env w ev =
            (case put_item env w ?u2 of
               Inl err \<Rightarrow> (internal_server_error, w)
             | Inr w1 \<Rightarrow> (respond 200 ''You are successfully unsubscribed'', w1))"
          using qd e t u g
          by (simp add: unsubscribe_def query_get_def falsy_def get_user_def no_user_def Let_def)
        show ?thesis
        proof (cases "put_item env w ?u2")
          case (Inl err)
          with step show ?thesis
            by (simp add: internal_server_error_def statusCode_respond)
        next
          case (Inr w1)
          then obtain k where k: "map_of user ''email'' = Some (VStr k)"
            and w1: "w1 = w\<lparr>table := (table w)(k \<mapsto> ?u2)\<rparr>"
            by (auto simp add: put_item_def map_of_item_set
                split: option.splits pyval.splits if_splits)
          from step Inr have "statusCode (fst (unsubscribe env w ev)) = 200"
            and "snd (unsubscribe env w ev) = w1"
            by (simp_all add: statusCode_respond)
          with u(1) k w1 show ?thesis
            by blast
        qed
      qed
    qed
  qed
qed

lemma verify_outcomes:
  "(statusCode (fst (verify env w ev)) = 200
        \<and> get_item_ok env \<and> put_item_ok env \<and> ses_ok env
        \<and> (\<exists>email user k m. table w email = Some user
              \<and> map_of user ''email'' = Some (VStr k)
              \<and> ToAddresses m = [email]
              \<and> snd (verify env w ev) =
                  w\<lparr>table := (table w)(k \<mapsto>
                      item_set (item_set user ''verified'' (VBool True))
                        ''updated_at'' (VStr (now1 env))),
                    outbox := outbox w @ [m]\<rparr>))
      \<or> (statusCode (fst (verify env w ev)) \<in> {400, 500}
        \<and> snd (verify env w ev) = w)
      \<or> (statusCode (fst (verify env w ev)) = 500
        \<and> get_item_ok env \<and> put_item_ok env
        \<and> (files env ''templates/verified.html'' = None
            \<or> files env ''templates/verified.txt'' = None
            \<or> \<not> ses_ok env)
        \<and> (\<exists>email user k. table w email = Some user
              \<and> map_of user ''email'' = Some (VStr k)
              \<and> snd (verify env w ev) =
                  w\<lparr>table := (table w)(k \<mapsto>
                      item_set (item_set user ''verified'' (VBool True))
                        ''updated_at'' (VStr (now1 env)))\<rparr>))"
proof (cases "queryStringParameters ev")
  case None
  then show ?thesis
    by (simp add: verify_def internal_server_error_def statusCode_respond)
next
  case (Some qp)
  show ?thesis
  proof (cases qp)
    case QNull
    with Some show ?thesis
      by (simp add: verify_def query_get_def internal_server_error_def statusCode_respond)
  next
    case (QDict q)
    with Some have qd: "queryStringParameters ev = Some (QDict q)"
      by simp
    show ?thesis
    proof (cases "falsy (map_of q ''email'') \<or> falsy (map_of q ''token'')")
      case True
      with qd show ?thesis
        by (simp add: verify_def query_get_def statusCode_respond)
    next
      case False
      then obtain email token
        where e: "map_of q ''email'' = Some email" "email \<noteq> []"
          and t: "map_of q ''token'' = Some token" "token \<noteq> []"
        by (auto simp add: falsy_def split: option.splits)
      show ?thesis
      proof (cases "get_item_ok env \<and> \<not> no_user (table w email)
                     \<and> item_get (the (table w email)) ''token'' = VStr token")
        case False
        with qd e t show ?thesis
          by (auto simp add: verify_def query_get_def falsy_def get_user_def
              internal_server_error_def statusCode_respond)
      next
        case True
        then obtain user
          where u: "table w email = Some user" "user \<noteq> []"
            "item_get user ''token'' = VStr token" and g: "get_item_ok env"
          by (auto simp add: no_user_def split: option.splits)
        let ?u2 = "item_set (item_set user ''verified'' (VBool True))
                     ''updated_at'' (VStr (now1 env))"
        let ?url = "DOMAIN env @ ''/unsubscribe?email='' @ email @ ''&token='' @ token"
        have step: "verify env w ev =
            (case put_item env w ?u2 of
               Inl err \<Rightarrow> (internal_server_error, w)
             | Inr w1 \<Rightarrow>
            (case read_file env ''templates/verified.html'' of
               Inl err \<Rightarrow> (internal_server_error, w1)
             | Inr html0 \<Rightarrow>
            (case read_file env ''templates/verified.txt'' of
               Inl err \<Rightarrow> (internal_server_error, w1)
             | Inr text0 \<Rightarrow>
            (case send_email env w1 email ''Email verified''
                    (str_replace ''{{unsubscribe_url}}'' ?url html0,
                     str_replace ''{{unsubscribe_url}}'' ?url text0) of
               Inl err \<Rightarrow> (internal_server_error, w1)
             | Inr w2 \<Rightarrow> (respond 200 ''User verified successfully'', w2)))))"
          using qd e t u g
          by (simp add: verify_def query_get_def falsy_def get_user_def no_user_def Let_def
              split: sum.splits)
        show ?thesis
        proof (cases "put_item env w ?u2")
          case (Inl err)
          with step show ?thesis
            by (simp add: internal_server_error_def statusCode_respond)
        next
          case (Inr w1)
          then obtain k where k: "map_of user ''email'' = Some (VStr k)"
            and p: "put_item_ok env"
            and w1: "w1 = w\<lparr>table := (table w)(k \<mapsto> ?u2)\<rparr>"
            by (auto simp add: put_item_def map_of_item_set
                split: option.splits pyval.splits if_splits)
          show ?thesis
          proof (cases "files env ''templates/verified.html'' = None
                        \<or> files env ''templates/verified.txt'' = None \<or> \<not> ses_ok env")
            case True
            with step Inr have "statusCode (fst (verify env w ev)) = 500"
              and "snd (verify env w ev) = w1"
              by (auto simp add: read_file_def send_email_def internal_server_error_def
                  statusCode_respond split: option.splits)
            with True u(1) k w1 g p show ?thesis
              by blast
          next
            case False
            then obtain html0 text0
              where f: "files env ''templates/verified.html'' = Some html0"
                "files env ''templates/verified.txt'' = Some text0" and s: "ses_ok env"
              by auto
            let ?m = "\<lparr>Source = FROM_EMAIL env, ToAddresses = [email],
                        Subject = ''Email verified'',
                        Html = str_replace ''{{unsubscribe_url}}'' ?url html0,
                        Text = str_replace ''{{unsubscribe_url}}'' ?url text0\<rparr>"
            from step Inr f s have "statusCode (fst (verify env w ev)) = 200"
              and "snd (verify env w ev) = w1\<lparr>outbox := outbox w1 @ [?m]\<rparr>"
              by (simp_all add: read_file_def send_email_def statusCode_respond)
            then have "statusCode (fst (verify env w ev)) = 200"
              and "snd (verify env w ev) =
                  w\<lparr>table := (table w)(k \<mapsto> ?u2), outbox := outbox w @ [?m]\<rparr>"
              by (simp_all add: w1)
            moreover have "ToAddresses ?m = [email]"
              by simp
            ultimately show ?thesis
              using u(1) k g p s by blast
          qed
        qed
      qed
    qed
  qed
qed

section \<open>Dispatch\<close>

text \<open>
  C7. An event that carries a method and a path is routed by them:
  \<^verbatim>\<open>POST /subscribe\<close> to \<open>subscribe\<close>, \<^verbatim>\<open>GET /verify\<close> to \<open>verify\<close>,
  \<^verbatim>\<open>GET /unsubscribe\<close> to \<open>unsubscribe\<close>; every other combination of method and
  path is answered with status 405 and the message \<^verbatim>\<open>Method not allowed\<close>, and changes
  nothing.
\<close>

theorem lambda_handler_dispatch:
  assumes "httpMethod ev = Some m" and "path ev = Some p"
  shows \<open>lambda_handler env w ev =
     (if m = ''POST'' \<and> p = ''/subscribe'' then subscribe env w ev
      else if m = ''GET'' \<and> p = ''/verify'' then verify env w ev
      else if m = ''GET'' \<and> p = ''/unsubscribe'' then unsubscribe env w ev
      else (\<lparr>statusCode = 405, resp_headers = headers,
              resp_body = ''{"message": "Method not allowed"}''\<rparr>, w))\<close>
  using assms by (simp add: lambda_handler_def respond_def json_dumps_message_def)

theorem lambda_handler_dispatch_witness:
  \<open>httpMethod (ex_get ''/subscribe'' ''a@x.com'' ''t'') = Some ''GET''
   \<and> path (ex_get ''/subscribe'' ''a@x.com'' ''t'') = Some ''/subscribe''
   \<and> lambda_handler ex_env (ex_world True) (ex_get ''/subscribe'' ''a@x.com'' ''t'') =
       (\<lparr>statusCode = 405, resp_headers = headers,
         resp_body = ''{"message": "Method not allowed"}''\<rparr>, ex_world True)\<close>
  using lambda_handler_dispatch
    [of "ex_get ''/subscribe'' ''a@x.com'' ''t''" "''GET''" "''/subscribe''" ex_env "ex_world True"]
  by (simp add: ex_get_def)

section \<open>Requests without query parameters\<close>

text \<open>
  C8. When the event of a verify or unsubscribe request has no
  \<^verbatim>\<open>queryStringParameters\<close> entry, or the entry is \<^verbatim>\<open>null\<close>, the operation answers
  500 \<^verbatim>\<open>Internal server error\<close>; an event whose parameters are a dictionary in which
  \<^verbatim>\<open>email\<close> or \<^verbatim>\<open>token\<close> is missing or empty is answered with 400
  \<^verbatim>\<open>Email and token are required\<close>. Neither changes the state.
\<close>

theorem missing_query_params:
  assumes "queryStringParameters ev = None \<or> queryStringParameters ev = Some QNull"
    and "queryStringParameters ev' = Some (QDict d)"
    and "falsy (map_of d ''email'') \<or> falsy (map_of d ''token'')"
  shows \<open>verify env w ev =
           (\<lparr>statusCode = 500, resp_headers = headers,
             resp_body = ''{"message": "Internal server error"}''\<rparr>, w)
       \<and> unsubscribe env w ev =
           (\<lparr>statusCode = 500, resp_headers = headers,
             resp_body = ''{"message": "Internal server error"}''\<rparr>, w)
       \<and> verify env w ev' =
           (\<lparr>statusCode = 400, resp_headers = headers,
             resp_body = ''{"message": "Email and token are required"}''\<rparr>, w)
       \<and> unsubscribe env w ev' =
           (\<lparr>statusCode = 400, resp_headers = headers,
             resp_body = ''{"message": "Email and token are required"}''\<rparr>, w)\<close>
  using assms
  by (auto simp add: verify_def unsubscribe_def query_get_def internal_server_error_def
      respond_def json_dumps_message_def)

theorem missing_query_params_witness:
  \<open>queryStringParameters (ex_get_bare ''/verify'') = Some QNull
   \<and> queryStringParameters (ex_get ''/verify'' ''a@x.com'' []) =
       Some (QDict [(''email'', ''a@x.com''), (''token'', [])])
   \<and> falsy (map_of [(''email'', ''a@x.com''), (''token'', [])] ''token'')
   \<and> statusCode (fst (verify ex_env (ex_world False) (ex_get_bare ''/verify''))) = 500
   \<and> statusCode (fst (unsubscribe ex_env (ex_world True) (ex_get_bare ''/verify''))) = 500
   \<and> statusCode (fst (verify ex_env (ex_world False) (ex_get ''/verify'' ''a@x.com'' []))) = 400
   \<and> statusCode (fst (unsubscribe ex_env (ex_world True) (ex_get ''/verify'' ''a@x.com'' []))) = 400\<close>
  using missing_query_params
    [of "ex_get_bare ''/verify''" "ex_get ''/verify'' ''a@x.com'' []"
        "[(''email'', ''a@x.com''), (''token'', [])]" ex_env "ex_world False"]
    missing_query_params
    [of "ex_get_bare ''/verify''" "ex_get ''/verify'' ''a@x.com'' []"
        "[(''email'', ''a@x.com''), (''token'', [])]" ex_env "ex_world True"]
  by (simp add: ex_get_def ex_get_bare_def falsy_def)

section \<open>Rejections that do not reveal whether an address is registered\<close>

text \<open>
  C1. Take a verify request for an address without a record and a verify request for an
  address whose record holds another token than the one supplied (both requests carry a
  non-empty email and token, and the lookup itself works). Both are answered with status
  400 and the same response, field for field, whose body is the message
  \<^verbatim>\<open>User verification failed\<close>. The same holds for unsubscribe, with the message
  \<^verbatim>\<open>Failed to unsubscribe\<close>.
\<close>

theorem no_existence_leak:
  assumes "queryStringParameters ev1 = Some (QDict q1)"
    and "map_of q1 ''email'' = Some email1" and "email1 \<noteq> []"
    and "map_of q1 ''token'' = Some token1" and "token1 \<noteq> []"
    and "queryStringParameters ev2 = Some (QDict q2)"
    and "map_of q2 ''email'' = Some email2" and "email2 \<noteq> []"
    and "map_of q2 ''token'' = Some token2" and "token2 \<noteq> []"
    and "get_item_ok env1" and "get_item_ok env2"
    and "table w1 email1 = None"
    and "table w2 email2 = Some user" and "item_get user ''token'' \<noteq> VStr token2"
  shows \<open>fst (verify env1 w1 ev1) =
           \<lparr>statusCode = 400, resp_headers = headers,
            resp_body = ''{"message": "User verification failed"}''\<rparr>
       \<and> fst (verify env2 w2 ev2) = fst (verify env1 w1 ev1)
       \<and> fst (unsubscribe env1 w1 ev1) =
           \<lparr>statusCode = 400, resp_headers = headers,
            resp_body = ''{"message": "Failed to unsubscribe"}''\<rparr>
       \<and> fst (unsubscribe env2 w2 ev2) = fst (unsubscribe env1 w1 ev1)\<close>
  using assms
  by (simp add: verify_def unsubscribe_def query_get_def falsy_def get_user_def no_user_def
      respond_def json_dumps_message_def)

theorem no_existence_leak_witness:
  \<open>table (ex_world True) ''b@x.com'' = None
   \<and> table (ex_world True) ''a@x.com'' = Some (ex_user True)
   \<and> item_get (ex_user True) ''token'' \<noteq> VStr ''0123''
   \<and> fst (verify ex_env (ex_world True) (ex_get ''/verify'' ''b@x.com'' ''0123'')) =
        \<lparr>statusCode = 400, resp_headers = headers,
         resp_body = ''{"message": "User verification failed"}''\<rparr>
   \<and> fst (verify ex_env2 (ex_world True) (ex_get ''/verify'' ''a@x.com'' ''0123'')) =
       fst (verify ex_env (ex_world True) (ex_get ''/verify'' ''b@x.com'' ''0123''))
   \<and> fst (unsubscribe ex_env2 (ex_world True) (ex_get ''/unsubscribe'' ''a@x.com'' ''0123'')) =
       fst (unsubscribe ex_env (ex_world True) (ex_get ''/unsubscribe'' ''b@x.com'' ''0123''))\<close>
  using no_existence_leak
    [of "ex_get ''/verify'' ''b@x.com'' ''0123''"
        "[(''email'', ''b@x.com''), (''token'', ''0123'')]" "''b@x.com''" "''0123''"
        "ex_get ''/verify'' ''a@x.com'' ''0123''"
        "[(''email'', ''a@x.com''), (''token'', ''0123'')]" "''a@x.com''" "''0123''"
        ex_env ex_env2 "ex_world True" "ex_world True" "ex_user True"]
    no_existence_leak
    [of "ex_get ''/unsubscribe'' ''b@x.com'' ''0123''"
        "[(''email'', ''b@x.com''), (''token'', ''0123'')]" "''b@x.com''" "''0123''"
        "ex_get ''/unsubscribe'' ''a@x.com'' ''0123''"
        "[(''email'', ''a@x.com''), (''token'', ''0123'')]" "''a@x.com''" "''0123''"
        ex_env ex_env2 "ex_world True" "ex_world True" "ex_user True"]
  by (simp add: ex_get_def ex_env_def ex_env2_def ex_world_def ex_user_def item_get_def)

section \<open>Subscribing an address that is already verified\<close>

text \<open>
  C6. A subscribe request for an address whose record has \<^verbatim>\<open>verified\<close> equal to
  \<^verbatim>\<open>True\<close> is answered with 400 \<^verbatim>\<open>User already subscribed\<close>, and the state after
  the call is the state before it: the table, and with it the token, is untouched, and
  no message has been sent.
\<close>

theorem subscribe_already_verified:
  assumes "load_body env ev = Inr (VDict d)"
    and "map_of d ''email'' = Some (VStr email)" and "email \<noteq> []"
    and "get_item_ok env"
    and "table w email = Some user"
    and "map_of user ''verified'' = Some (VBool True)"
  shows \<open>subscribe env w ev =
           (\<lparr>statusCode = 400, resp_headers = headers,
             resp_body = ''{"message": "User already subscribed"}''\<rparr>, w)\<close>
proof -
  from assms(6) have "user \<noteq> []" by auto
  with assms show ?thesis
    by (simp add: subscribe_def body_get_def item_get_def get_user_def no_user_def
        respond_def json_dumps_message_def)
qed

theorem subscribe_already_verified_witness:
  \<open>load_body ex_env (ex_post ''a@x.com'') = Inr (VDict [(''email'', VStr ''a@x.com'')])
   \<and> table (ex_world True) ''a@x.com'' = Some (ex_user True)
   \<and> map_of (ex_user True) ''verified'' = Some (VBool True)
   \<and> subscribe ex_env (ex_world True) (ex_post ''a@x.com'') =
       (\<lparr>statusCode = 400, resp_headers = headers,
         resp_body = ''{"message": "User already subscribed"}''\<rparr>, ex_world True)\<close>
  using subscribe_already_verified
    [of ex_env "ex_post ''a@x.com''" "[(''email'', VStr ''a@x.com'')]" "''a@x.com''"
        "ex_world True" "ex_user True"]
  by (simp add: ex_post_def ex_env_def ex_world_def ex_user_def load_body_def)

section \<open>What unsubscribe writes\<close>

text \<open>
  C9. An unsubscribe call that succeeds (status 200) for the record stored under the
  requested address writes that record back with \<^verbatim>\<open>verified\<close> set to \<^verbatim>\<open>False\<close>
  and \<^verbatim>\<open>updated_at\<close> set to the current time, and changes nothing else: every other
  attribute, in particular \<^verbatim>\<open>email\<close>, \<^verbatim>\<open>token\<close> and \<^verbatim>\<open>created_at\<close>, keeps its
  value, every other record and the sent messages are as before, and the supplied token
  is still the stored token.
\<close>

theorem unsubscribe_frame:
  assumes "queryStringParameters ev = Some (QDict q)"
    and "map_of q ''email'' = Some email"
    and "table w email = Some user"
    and "map_of user ''email'' = Some (VStr email)"
    and "statusCode (fst (unsubscribe env w ev)) = 200"
  shows "\<exists>user'. snd (unsubscribe env w ev) = w\<lparr>table := (table w)(email \<mapsto> user')\<rparr>
       \<and> map_of user' =
           (map_of user)(''verified'' \<mapsto> VBool False, ''updated_at'' \<mapsto> VStr (now1 env))
       \<and> map_of user' ''email'' = map_of user ''email''
       \<and> map_of user' ''token'' = map_of user ''token''
       \<and> map_of user' ''created_at'' = map_of user ''created_at''
       \<and> (\<exists>t. map_of q ''token'' = Some t \<and> map_of user' ''token'' = Some (VStr t))"
  using assms
  by (auto simp add: unsubscribe_def query_get_def falsy_def get_user_def no_user_def
      put_item_def map_of_item_set internal_server_error_def statusCode_respond item_get_def
      split: sum.splits option.splits if_splits pyval.splits)

theorem unsubscribe_frame_witness:
  \<open>statusCode (fst (unsubscribe ex_env (ex_world True)
      (ex_get ''/unsubscribe'' ''a@x.com'' ''00112233445566778899aabbccddeeff''))) = 200
   \<and> (\<exists>user'. snd (unsubscribe ex_env (ex_world True)
           (ex_get ''/unsubscribe'' ''a@x.com'' ''00112233445566778899aabbccddeeff'')) =
         (ex_world True)\<lparr>table := (table (ex_world True))(''a@x.com'' \<mapsto> user')\<rparr>
       \<and> map_of user' ''verified'' = Some (VBool False)
       \<and> map_of user' ''token'' = Some (VStr ''00112233445566778899aabbccddeeff''))\<close>
proof -
  let ?ev = "ex_get ''/unsubscribe'' ''a@x.com'' ''00112233445566778899aabbccddeeff''"
  have ok: "statusCode (fst (unsubscribe ex_env (ex_world True) ?ev)) = 200"
    by (simp add: unsubscribe_def ex_get_def ex_env_def ex_world_def ex_user_def query_get_def
        falsy_def get_user_def no_user_def item_get_def put_item_def statusCode_respond)
  from unsubscribe_frame
    [of ?ev "[(''email'', ''a@x.com''), (''token'', ''00112233445566778899aabbccddeeff'')]"
        "''a@x.com''" "ex_world True" "ex_user True" ex_env] ok
  obtain user' where
    "snd (unsubscribe ex_env (ex_world True) ?ev) =
       (ex_world True)\<lparr>table := (table (ex_world True))(''a@x.com'' \<mapsto> user')\<rparr>"
    and "map_of user' =
           (map_of (ex_user True))(''verified'' \<mapsto> VBool False,
             ''updated_at'' \<mapsto> VStr (now1 ex_env))"
    and "map_of user' ''token'' = map_of (ex_user True) ''token''"
    by (auto simp add: ex_get_def ex_world_def ex_user_def)
  then show ?thesis using ok
    by (auto simp add: ex_user_def)
qed

section \<open>Subscribing any non-empty address\<close>

text \<open>
  C10. Subscribe does not look at the form of the address. For every non-empty string
  posted as \<^verbatim>\<open>email\<close>, whatever its characters, when the table and the sender work,
  the two templates exist and the address is not already verified, subscribe answers 200
  \<^verbatim>\<open>User subscribed successfully\<close>, stores under that string a record with a fresh
  token and \<^verbatim>\<open>verified\<close> equal to \<^verbatim>\<open>False\<close>, and sends one message to that
  string.
\<close>

theorem subscribe_no_format_validation:
  assumes "load_body env ev = Inr (VDict d)"
    and "map_of d ''email'' = Some (VStr email)" and "email \<noteq> []"
    and "no_user (table w email) \<or> \<not> truthy (item_get (the (table w email)) ''verified'')"
    and "get_item_ok env" and "put_item_ok env" and "ses_ok env"
    and "files env ''templates/verify.html'' = Some html0"
    and "files env ''templates/verify.txt'' = Some text0"
  shows \<open>fst (subscribe env w ev) =
           \<lparr>statusCode = 200, resp_headers = headers,
            resp_body = ''{"message": "User subscribed successfully"}''\<rparr>
       \<and> table (snd (subscribe env w ev)) =
           (table w)(email \<mapsto>
             [(''email'', VStr email),
              (''token'', VStr (hex (urandom16 env))),
              (''verified'', VBool False),
              (''created_at'', VStr (now1 env)),
              (''updated_at'', VStr (now2 env))])
       \<and> length (outbox (snd (subscribe env w ev))) = Suc (length (outbox w))
       \<and> ToAddresses (last (outbox (snd (subscribe env w ev)))) = [email]\<close>
  using subscribe_success [OF assms]
  by (simp add: respond_def json_dumps_message_def)

theorem subscribe_no_format_validation_witness:
  \<open>load_body ex_env (ex_post ''not an address'') = Inr (VDict [(''email'', VStr ''not an address'')])
   \<and> no_user (table ex_empty_world ''not an address'')
   \<and> statusCode (fst (subscribe ex_env ex_empty_world (ex_post ''not an address''))) = 200
   \<and> table (snd (subscribe ex_env ex_empty_world (ex_post ''not an address''))) ''not an address'' =
       Some [(''email'', VStr ''not an address''),
             (''token'', VStr ''000102030405060708090a0b0c0d0e0f''),
             (''verified'', VBool False),
             (''created_at'', VStr ''2024-05-01T10:00:00.000001''),
             (''updated_at'', VStr ''2024-05-01T10:00:00.000002'')]\<close>
  using subscribe_no_format_validation
    [of ex_env "ex_post ''not an address''" "[(''email'', VStr ''not an address'')]"
        "''not an address''" ex_empty_world
        "''<a href={{verify_url}}>yes</a> <a href={{unsubscribe_url}}>no</a>''"
        "''Verify: {{verify_url}}''"]
  by (simp add: ex_post_def ex_env_def ex_empty_world_def load_body_def no_user_def
      hex_def hex_byte_def hex_digit_def)

section \<open>Verifying twice\<close>

text \<open>
  C4. For a record whose stored token is \<open>T\<close> (a non-empty string), two verify calls
  in succession with \<open>T\<close>, each with working collaborators, both answer 200
  \<^verbatim>\<open>User verified successfully\<close>, the second response being equal to the first, and
  after each call the record has \<^verbatim>\<open>verified\<close> equal to \<^verbatim>\<open>True\<close>: the guard
  compares the token only and does not look at the current state.
\<close>

theorem verify_twice:
  assumes "queryStringParameters ev = Some (QDict q)"
    and "map_of q ''email'' = Some email" and "email \<noteq> []"
    and "map_of q ''token'' = Some token" and "token \<noteq> []"
    and "table w email = Some user"
    and "map_of user ''email'' = Some (VStr email)"
    and "map_of user ''token'' = Some (VStr token)"
    and "get_item_ok env1" and "put_item_ok env1" and "ses_ok env1"
    and "files env1 ''templates/verified.html'' = Some html1"
    and "files env1 ''templates/verified.txt'' = Some text1"
    and "get_item_ok env2" and "put_item_ok env2" and "ses_ok env2"
    and "files env2 ''templates/verified.html'' = Some html2"
    and "files env2 ''templates/verified.txt'' = Some text2"
  shows \<open>fst (verify env1 w ev) =
           \<lparr>statusCode = 200, resp_headers = headers,
            resp_body = ''{"message": "User verified successfully"}''\<rparr>
       \<and> fst (verify env2 (snd (verify env1 w ev)) ev) = fst (verify env1 w ev)
       \<and> (\<exists>u. table (snd (verify env1 w ev)) email = Some u
              \<and> map_of u ''verified'' = Some (VBool True))
       \<and> (\<exists>u. table (snd (verify env2 (snd (verify env1 w ev)) ev)) email = Some u
              \<and> map_of u ''verified'' = Some (VBool True))\<close>
proof -
  let ?u1 = "item_set (item_set user ''verified'' (VBool True)) ''updated_at'' (VStr (now1 env1))"
  let ?w1 = "snd (verify env1 w ev)"
  note first = verify_success [OF assms(1-8) assms(9-13)]
  have t1: "table ?w1 email = Some ?u1"
    by (simp add: first)
  have e1: "map_of ?u1 ''email'' = Some (VStr email)"
    and k1: "map_of ?u1 ''token'' = Some (VStr token)"
    and v1: "map_of ?u1 ''verified'' = Some (VBool True)"
    using assms(7,8) by (simp_all add: map_of_item_set)
  note second = verify_success [OF assms(1-5) t1 e1 k1 assms(14-18)]
  have "fst (verify env1 w ev) = respond 200 ''User verified successfully''"
    by (simp add: first)
  moreover have "fst (verify env2 ?w1 ev) = respond 200 ''User verified successfully''"
    by (simp add: second)
  moreover have "\<exists>u. table (snd (verify env2 ?w1 ev)) email = Some u
      \<and> map_of u ''verified'' = Some (VBool True)"
    by (simp add: second map_of_item_set)
  ultimately show ?thesis
    using t1 v1 by (simp add: respond_def json_dumps_message_def)
qed

theorem verify_twice_witness:
  \<open>table (ex_world False) ''a@x.com'' = Some (ex_user False)
   \<and> map_of (ex_user False) ''token'' = Some (VStr ''00112233445566778899aabbccddeeff'')
   \<and> statusCode (fst (verify ex_env (ex_world False)
        (ex_get ''/verify'' ''a@x.com'' ''00112233445566778899aabbccddeeff''))) = 200
   \<and> fst (verify ex_env2
        (snd (verify ex_env (ex_world False)
          (ex_get ''/verify'' ''a@x.com'' ''00112233445566778899aabbccddeeff'')))
        (ex_get ''/verify'' ''a@x.com'' ''00112233445566778899aabbccddeeff'')) =
       fst (verify ex_env (ex_world False)
        (ex_get ''/verify'' ''a@x.com'' ''00112233445566778899aabbccddeeff''))\<close>
  using verify_twice
    [of "ex_get ''/verify'' ''a@x.com'' ''00112233445566778899aabbccddeeff''"
        "[(''email'', ''a@x.com''), (''token'', ''00112233445566778899aabbccddeeff'')]"
        "''a@x.com''" "''00112233445566778899aabbccddeeff''" "ex_world False" "ex_user False"
        ex_env "''<a href={{unsubscribe_url}}>leave</a>''" "''Leave: {{unsubscribe_url}}''"
        ex_env2 "''<a href={{unsubscribe_url}}>leave</a>''" "''Leave: {{unsubscribe_url}}''"]
  by (simp add: ex_get_def ex_env_def ex_env2_def ex_world_def ex_user_def)

section \<open>Token rotation\<close>

text \<open>
  C5. When an address is subscribed and, before any verification, subscribed again (both
  calls answering 200, the two draws of \<^verbatim>\<open>os.urandom(16)\<close> being different), the second
  call stores the second token in place of the first: afterwards a verify call with the
  first token is answered 400 \<^verbatim>\<open>User verification failed\<close>, and a verify call with the
  second token, with working collaborators, is answered 200.
\<close>

theorem token_rotation:
  assumes "load_body env1 ev1 = Inr (VDict d1)"
    and "map_of d1 ''email'' = Some (VStr email)"
    and "statusCode (fst (subscribe env1 w ev1)) = 200"
    and "load_body env2 ev2 = Inr (VDict d2)"
    and "map_of d2 ''email'' = Some (VStr email)"
    and "statusCode (fst (subscribe env2 (snd (subscribe env1 w ev1)) ev2)) = 200"
    and "length (urandom16 env1) = 16" and "length (urandom16 env2) = 16"
    and "urandom16 env1 \<noteq> urandom16 env2"
    and "queryStringParameters evA = Some (QDict qA)"
    and "map_of qA ''email'' = Some email"
    and "map_of qA ''token'' = Some (hex (urandom16 env1))"
    and "queryStringParameters evB = Some (QDict qB)"
    and "map_of qB ''email'' = Some email"
    and "map_of qB ''token'' = Some (hex (urandom16 env2))"
    and "get_item_ok env3" and "put_item_ok env3" and "ses_ok env3"
    and "files env3 ''templates/verified.html'' = Some html3"
    and "files env3 ''templates/verified.txt'' = Some text3"
  shows \<open>item_get (the (table (snd (subscribe env1 w ev1)) email)) ''token'' =
           VStr (hex (urandom16 env1))
       \<and> item_get (the (table (snd (subscribe env2 (snd (subscribe env1 w ev1)) ev2)) email))
             ''token'' = VStr (hex (urandom16 env2))
       \<and> fst (verify env3 (snd (subscribe env2 (snd (subscribe env1 w ev1)) ev2)) evA) =
           \<lparr>statusCode = 400, resp_headers = headers,
            resp_body = ''{"message": "User verification failed"}''\<rparr>
       \<and> fst (verify env3 (snd (subscribe env2 (snd (subscribe env1 w ev1)) ev2)) evB) =
           \<lparr>statusCode = 200, resp_headers = headers,
            resp_body = ''{"message": "User verified successfully"}''\<rparr>\<close>
proof -
  let ?w1 = "snd (subscribe env1 w ev1)"
  let ?w2 = "snd (subscribe env2 ?w1 ev2)"
  let ?it2 = "[(''email'', VStr email), (''token'', VStr (hex (urandom16 env2))),
               (''verified'', VBool False), (''created_at'', VStr (now1 env2)),
               (''updated_at'', VStr (now2 env2))]"
  have ne: "email \<noteq> []"
    using subscribe_200(1) [OF assms(3) assms(1) assms(2)] .
  have t1: "item_get (the (table ?w1 email)) ''token'' = VStr (hex (urandom16 env1))"
    by (simp add: subscribe_200(2) [OF assms(3) assms(1) assms(2)] item_get_def)
  have tab2: "table ?w2 email = Some ?it2"
    by (simp add: subscribe_200(2) [OF assms(6) assms(4) assms(5)])
  have t2: "item_get (the (table ?w2 email)) ''token'' = VStr (hex (urandom16 env2))"
    by (simp add: tab2 item_get_def)
  have diff: "hex (urandom16 env2) \<noteq> hex (urandom16 env1)"
    using hex_inj [of "urandom16 env2" "urandom16 env1"] assms(7-9) by auto
  have n1: "hex (urandom16 env1) \<noteq> []" and n2: "hex (urandom16 env2) \<noteq> []"
    using length_hex [of "urandom16 env1"] length_hex [of "urandom16 env2"] assms(7,8)
    by auto
  have "item_get (the (table ?w2 email)) ''token'' \<noteq> VStr (hex (urandom16 env1))"
    using t2 diff by simp
  then have a: "verify env3 ?w2 evA = (respond 400 ''User verification failed'', ?w2)"
    using verify_rejected [OF assms(10) assms(11) ne assms(12) n1 assms(16)] by simp
  have b: "fst (verify env3 ?w2 evB) = respond 200 ''User verified successfully''"
    using verify_success [OF assms(13) assms(14) ne assms(15) n2 tab2 _ _ assms(16-20)]
    by simp
  show ?thesis
    using t1 t2 a b by (simp add: respond_def json_dumps_message_def)
qed

theorem token_rotation_witness:
  \<open>statusCode (fst (subscribe ex_env ex_empty_world (ex_post ''a@x.com''))) = 200
   \<and> statusCode (fst (subscribe ex_env2
         (snd (subscribe ex_env ex_empty_world (ex_post ''a@x.com''))) (ex_post ''a@x.com''))) = 200
   \<and> urandom16 ex_env \<noteq> urandom16 ex_env2
   \<and> hex (urandom16 ex_env) = ''000102030405060708090a0b0c0d0e0f''
   \<and> hex (urandom16 ex_env2) = ''101112131415161718191a1b1c1d1e1f''
   \<and> statusCode (fst (verify ex_env
         (snd (subscribe ex_env2
           (snd (subscribe ex_env ex_empty_world (ex_post ''a@x.com''))) (ex_post ''a@x.com'')))
         (ex_get ''/verify'' ''a@x.com'' ''000102030405060708090a0b0c0d0e0f''))) = 400
   \<and> statusCode (fst (verify ex_env
         (snd (subscribe ex_env2
           (snd (subscribe ex_env ex_empty_world (ex_post ''a@x.com''))) (ex_post ''a@x.com'')))
         (ex_get ''/verify'' ''a@x.com'' ''101112131415161718191a1b1c1d1e1f''))) = 200\<close>
proof -
  let ?p = "ex_post ''a@x.com''"
  let ?d = "[(''email'', VStr ''a@x.com'')]"
  let ?w1 = "snd (subscribe ex_env ex_empty_world ?p)"
  have h1: "hex (urandom16 ex_env) = ''000102030405060708090a0b0c0d0e0f''"
    and h2: "hex (urandom16 ex_env2) = ''101112131415161718191a1b1c1d1e1f''"
    by (simp_all add: ex_env_def ex_env2_def hex_def hex_byte_def hex_digit_def)
  have b1: "load_body ex_env ?p = Inr (VDict ?d)"
    and b2: "load_body ex_env2 ?p = Inr (VDict ?d)"
    by (simp_all add: load_body_def ex_post_def)
  have m: "map_of ?d ''email'' = Some (VStr ''a@x.com'')"
    by simp
  have s1: "statusCode (fst (subscribe ex_env ex_empty_world ?p)) = 200"
    using subscribe_success [OF b1 m, of ex_empty_world]
    by (simp add: ex_env_def ex_empty_world_def no_user_def statusCode_respond)
  have "\<not> truthy (item_get (the (table ?w1 ''a@x.com'')) ''verified'')"
    by (simp add: subscribe_200(2) [OF s1 b1 m] item_get_def)
  then have s2: "statusCode (fst (subscribe ex_env2 ?w1 ?p)) = 200"
    using subscribe_success [OF b2 m, of ?w1]
    by (simp add: ex_env_def ex_env2_def statusCode_respond)
  have d: "urandom16 ex_env \<noteq> urandom16 ex_env2"
    by (simp add: ex_env_def ex_env2_def)
  from token_rotation
    [OF b1 m s1 b2 m s2, of
        "ex_get ''/verify'' ''a@x.com'' ''000102030405060708090a0b0c0d0e0f''"
        "[(''email'', ''a@x.com''), (''token'', ''000102030405060708090a0b0c0d0e0f'')]"
        "ex_get ''/verify'' ''a@x.com'' ''101112131415161718191a1b1c1d1e1f''"
        "[(''email'', ''a@x.com''), (''token'', ''101112131415161718191a1b1c1d1e1f'')]"
        ex_env "''<a href={{unsubscribe_url}}>leave</a>''" "''Leave: {{unsubscribe_url}}''"]
  have \<open>fst (verify ex_env (snd (subscribe ex_env2 ?w1 ?p))
            (ex_get ''/verify'' ''a@x.com'' ''000102030405060708090a0b0c0d0e0f'')) =
           \<lparr>statusCode = 400, resp_headers = headers,
            resp_body = ''{"message": "User verification failed"}''\<rparr>
       \<and> fst (verify ex_env (snd (subscribe ex_env2 ?w1 ?p))
            (ex_get ''/verify'' ''a@x.com'' ''101112131415161718191a1b1c1d1e1f'')) =
           \<lparr>statusCode = 200, resp_headers = headers,
            resp_body = ''{"message": "User verified successfully"}''\<rparr>\<close>
    using d h1 h2 by (simp add: ex_get_def ex_env_def ex_env2_def)
  then show ?thesis
    using s1 s2 d h1 h2 by simp
qed

section \<open>The token after unsubscribing\<close>

text \<open>
  C2, as stated, asks that the token of a record stops being a valid credential once the
  record has been unsubscribed. The handler does not do that: unsubscribe writes the
  record back with its token, so the same token unsubscribes again and verifies again.
  Here a verified subscriber unsubscribes, and then both operations succeed with the old
  token.
\<close>

theorem unsubscribe_keeps_token_valid:
  \<open>statusCode (fst (unsubscribe ex_env (ex_world True)
      (ex_get ''/unsubscribe'' ''a@x.com'' ''00112233445566778899aabbccddeeff''))) = 200
   \<and> statusCode (fst (verify ex_env2
        (snd (unsubscribe ex_env (ex_world True)
          (ex_get ''/unsubscribe'' ''a@x.com'' ''00112233445566778899aabbccddeeff'')))
        (ex_get ''/verify'' ''a@x.com'' ''00112233445566778899aabbccddeeff''))) = 200
   \<and> statusCode (fst (unsubscribe ex_env2
        (snd (unsubscribe ex_env (ex_world True)
          (ex_get ''/unsubscribe'' ''a@x.com'' ''00112233445566778899aabbccddeeff'')))
        (ex_get ''/unsubscribe'' ''a@x.com'' ''00112233445566778899aabbccddeeff''))) = 200\<close>
  by (simp add: unsubscribe_def verify_def ex_get_def ex_env_def ex_env2_def ex_world_def
      ex_user_def query_get_def falsy_def get_user_def no_user_def item_get_def put_item_def
      read_file_def send_email_def statusCode_respond Let_def)

text \<open>
  C2, amended. A successful unsubscribe leaves the token of the record in place. The token
  is replaced only when the address is subscribed again: after a re-subscription that
  answers 200 and draws a token different from the old one, the record holds the new
  token, and verify and unsubscribe with the old token are answered 400.
\<close>

theorem old_token_until_resubscribe:
  assumes "queryStringParameters ev = Some (QDict q)"
    and "map_of q ''email'' = Some email"
    and "map_of q ''token'' = Some token"
    and "table w email = Some user"
    and "map_of user ''email'' = Some (VStr email)"
    and "statusCode (fst (unsubscribe env1 w ev)) = 200"
    and "load_body env2 evS = Inr (VDict d)"
    and "map_of d ''email'' = Some (VStr email)"
    and "statusCode (fst (subscribe env2 (snd (unsubscribe env1 w ev)) evS)) = 200"
    and "hex (urandom16 env2) \<noteq> token"
    and "get_item_ok env3"
  shows \<open>item_get (the (table (snd (unsubscribe env1 w ev)) email)) ''token'' = VStr token
       \<and> item_get (the (table (snd (subscribe env2 (snd (unsubscribe env1 w ev)) evS)) email))
             ''token'' = VStr (hex (urandom16 env2))
       \<and> fst (verify env3 (snd (subscribe env2 (snd (unsubscribe env1 w ev)) evS)) ev) =
           \<lparr>statusCode = 400, resp_headers = headers,
            resp_body = ''{"message": "User verification failed"}''\<rparr>
       \<and> fst (unsubscribe env3 (snd (subscribe env2 (snd (unsubscribe env1 w ev)) evS)) ev) =
           \<lparr>statusCode = 400, resp_headers = headers,
            resp_body = ''{"message": "Failed to unsubscribe"}''\<rparr>\<close>
proof -
  let ?w1 = "snd (unsubscribe env1 w ev)"
  let ?w2 = "snd (subscribe env2 ?w1 evS)"
  note u = unsubscribe_200 [OF assms(6) assms(1) assms(2) assms(3) assms(4)]
  have w1: "table ?w1 email = Some (item_set (item_set user ''verified'' (VBool False))
              ''updated_at'' (VStr (now1 env1)))"
    by (simp add: unsubscribe_success
        [OF assms(1) assms(2) u(1) assms(3) u(2) assms(4) assms(5) u(5) u(3) u(4)])
  have k1: "item_get (the (table ?w1 email)) ''token'' = VStr token"
    by (simp add: w1 item_get_def map_of_item_set u(5))
  have k2: "item_get (the (table ?w2 email)) ''token'' = VStr (hex (urandom16 env2))"
    by (simp add: subscribe_200(2) [OF assms(9) assms(7) assms(8)] item_get_def)
  then have ne: "item_get (the (table ?w2 email)) ''token'' \<noteq> VStr token"
    using assms(10) by simp
  have a: "fst (verify env3 ?w2 ev) = respond 400 ''User verification failed''"
    using verify_rejected [OF assms(1) assms(2) u(1) assms(3) u(2) assms(11)] ne by simp
  have b: "fst (unsubscribe env3 ?w2 ev) = respond 400 ''Failed to unsubscribe''"
    using unsubscribe_rejected [OF assms(1) assms(2) u(1) assms(3) u(2) assms(11)] ne by simp
  show ?thesis
    using k1 k2 a b by (simp add: respond_def json_dumps_message_def)
qed

theorem old_token_until_resubscribe_witness:
  \<open>statusCode (fst (unsubscribe ex_env (ex_world True)
      (ex_get ''/unsubscribe'' ''a@x.com'' ''00112233445566778899aabbccddeeff''))) = 200
   \<and> statusCode (fst (subscribe ex_env2
        (snd (unsubscribe ex_env (ex_world True)
          (ex_get ''/unsubscribe'' ''a@x.com'' ''00112233445566778899aabbccddeeff'')))
        (ex_post ''a@x.com''))) = 200
   \<and> hex (urandom16 ex_env2) \<noteq> ''00112233445566778899aabbccddeeff''
   \<and> statusCode (fst (verify ex_env
        (snd (subscribe ex_env2
          (snd (unsubscribe ex_env (ex_world True)
            (ex_get ''/unsubscribe'' ''a@x.com'' ''00112233445566778899aabbccddeeff'')))
          (ex_post ''a@x.com'')))
        (ex_get ''/unsubscribe'' ''a@x.com'' ''00112233445566778899aabbccddeeff''))) = 400
   \<and> statusCode (fst (unsubscribe ex_env
        (snd (subscribe ex_env2
          (snd (unsubscribe ex_env (ex_world True)
            (ex_get ''/unsubscribe'' ''a@x.com'' ''00112233445566778899aabbccddeeff'')))
          (ex_post ''a@x.com'')))
        (ex_get ''/unsubscribe'' ''a@x.com'' ''00112233445566778899aabbccddeeff''))) = 400\<close>
proof -
  let ?ev = "ex_get ''/unsubscribe'' ''a@x.com'' ''00112233445566778899aabbccddeeff''"
  let ?q = "[(''email'', ''a@x.com''), (''token'', ''00112233445566778899aabbccddeeff'')]"
  let ?p = "ex_post ''a@x.com''"
  let ?d = "[(''email'', VStr ''a@x.com'')]"
  let ?w1 = "snd (unsubscribe ex_env (ex_world True) ?ev)"
  have q: "queryStringParameters ?ev = Some (QDict ?q)"
    by (simp add: ex_get_def)
  have qe: "map_of ?q ''email'' = Some ''a@x.com''"
    and qt: "map_of ?q ''token'' = Some ''00112233445566778899aabbccddeeff''"
    by simp_all
  have t: "table (ex_world True) ''a@x.com'' = Some (ex_user True)"
    by (simp add: ex_world_def)
  have ue: "map_of (ex_user True) ''email'' = Some (VStr ''a@x.com'')"
    and ut: "map_of (ex_user True) ''token'' = Some (VStr ''00112233445566778899aabbccddeeff'')"
    by (simp_all add: ex_user_def)
  have u: "unsubscribe ex_env (ex_world True) ?ev =
      (respond 200 ''You are successfully unsubscribed'',
       (ex_world True)\<lparr>table := (table (ex_world True))(''a@x.com'' \<mapsto>
          item_set (item_set (ex_user True) ''verified'' (VBool False))
            ''updated_at'' (VStr (now1 ex_env)))\<rparr>)"
    by (rule unsubscribe_success [OF q qe _ qt _ t ue ut]) (simp_all add: ex_env_def)
  have s1: "statusCode (fst (unsubscribe ex_env (ex_world True) ?ev)) = 200"
    by (simp add: u statusCode_respond)
  have b: "load_body ex_env2 ?p = Inr (VDict ?d)"
    by (simp add: load_body_def ex_post_def)
  have m: "map_of ?d ''email'' = Some (VStr ''a@x.com'')"
    by simp
  have "\<not> truthy (item_get (the (table ?w1 ''a@x.com'')) ''verified'')"
    by (simp add: u item_get_item_set)
  then have s2: "statusCode (fst (subscribe ex_env2 ?w1 ?p)) = 200"
    using subscribe_success [OF b m, of ?w1]
    by (simp add: ex_env_def ex_env2_def statusCode_respond)
  have h: "hex (urandom16 ex_env2) \<noteq> ''00112233445566778899aabbccddeeff''"
    by (simp add: ex_env_def ex_env2_def hex_def hex_byte_def hex_digit_def)
  have g: "get_item_ok ex_env"
    by (simp add: ex_env_def)
  from old_token_until_resubscribe [OF q qe qt t ue s1 b m s2 h g]
  show ?thesis
    using s1 s2 h by simp
qed

section \<open>What a failed call leaves behind\<close>

text \<open>
  C3, as stated, asks that a verify or unsubscribe call that answers 500 has changed
  nothing in the table. Verify writes the record first and reads the templates and sends
  the confirmation afterwards, so a failure of the sender is answered 500 with the record
  already stored as verified. Here SES refuses the message for a pending subscriber.
\<close>

theorem verify_persists_before_sending:
  \<open>statusCode (fst (verify ex_env_ses_down (ex_world False)
      (ex_get ''/verify'' ''a@x.com'' ''00112233445566778899aabbccddeeff''))) = 500
   \<and> item_get (the (table (ex_world False) ''a@x.com'')) ''verified'' = VBool False
   \<and> item_get (the (table (snd (verify ex_env_ses_down (ex_world False)
        (ex_get ''/verify'' ''a@x.com'' ''00112233445566778899aabbccddeeff''))) ''a@x.com''))
        ''verified'' = VBool True
   \<and> outbox (snd (verify ex_env_ses_down (ex_world False)
        (ex_get ''/verify'' ''a@x.com'' ''00112233445566778899aabbccddeeff''))) = []\<close>
  by (simp add: verify_def ex_get_def ex_env_def ex_env_ses_down_def ex_world_def
      ex_user_def query_get_def falsy_def get_user_def no_user_def item_get_def put_item_def
      read_file_def send_email_def internal_server_error_def statusCode_respond Let_def)

text \<open>
  C3, amended. An unsubscribe call either answers 200 and has stored the record with
  \<^verbatim>\<open>verified\<close> set to \<^verbatim>\<open>False\<close>, or answers 400 or 500 and has changed nothing.
  A verify call ends in one of three ways: it answers 200, has stored the record as
  verified and has sent the confirmation; or it answers 400 or 500 and has changed
  nothing; or it answers 500 after the table accepted the write, because a template is
  missing or the sender failed, and then the record is stored as verified and no
  confirmation has been sent.
\<close>

theorem verify_unsubscribe_outcomes:
  \<open>((statusCode (fst (unsubscribe env w ev)) = 200
        \<and> (\<exists>email user k. table w email = Some user
              \<and> map_of user ''email'' = Some (VStr k)
              \<and> snd (unsubscribe env w ev) =
                  w\<lparr>table := (table w)(k \<mapsto>
                      item_set (item_set user ''verified'' (VBool False))
                        ''updated_at'' (VStr (now1 env)))\<rparr>))
      \<or> (statusCode (fst (unsubscribe env w ev)) \<in> {400, 500}
        \<and> snd (unsubscribe env w ev) = w))
   \<and> ((statusCode (fst (verify env w ev)) = 200
        \<and> get_item_ok env \<and> put_item_ok env \<and> ses_ok env
        \<and> (\<exists>email user k m. table w email = Some user
              \<and> map_of user ''email'' = Some (VStr k)
              \<and> ToAddresses m = [email]
              \<and> snd (verify env w ev) =
                  w\<lparr>table := (table w)(k \<mapsto>
                      item_set (item_set user ''verified'' (VBool True))
                        ''updated_at'' (VStr (now1 env))),
                    outbox := outbox w @ [m]\<rparr>))
      \<or> (statusCode (fst (verify env w ev)) \<in> {400, 500}
        \<and> snd (verify env w ev) = w)
      \<or> (statusCode (fst (verify env w ev)) = 500
        \<and> get_item_ok env \<and> put_item_ok env
        \<and> (files env ''templates/verified.html'' = None
            \<or> files env ''templates/verified.txt'' = None
            \<or> \<not> ses_ok env)
        \<and> (\<exists>email user k. table w email = Some user
              \<and> map_of user ''email'' = Some (VStr k)
              \<and> snd (verify env w ev) =
                  w\<lparr>table := (table w)(k \<mapsto>
                      item_set (item_set user ''verified'' (VBool True))
                        ''updated_at'' (VStr (now1 env)))\<rparr>)))\<close>
  using unsubscribe_outcomes [of env w ev] verify_outcomes [of env w ev]
  by (rule conjI)

theorem verify_unsubscribe_outcomes_witness:
  \<open>statusCode (fst (verify ex_env_ses_down (ex_world False)
      (ex_get ''/verify'' ''a@x.com'' ''00112233445566778899aabbccddeeff''))) = 500
   \<and> (\<exists>email user k. table (ex_world False) email = Some user
         \<and> map_of user ''email'' = Some (VStr k)
         \<and> snd (verify ex_env_ses_down (ex_world False)
               (ex_get ''/verify'' ''a@x.com'' ''00112233445566778899aabbccddeeff'')) =
             (ex_world False)\<lparr>table := (table (ex_world False))(k \<mapsto>
                item_set (item_set user ''verified'' (VBool True))
                  ''updated_at'' (VStr (now1 ex_env_ses_down)))\<rparr>)
   \<and> statusCode (fst (unsubscribe ex_env (ex_world True)
      (ex_get ''/verify'' ''a@x.com'' ''00112233445566778899aabbccddeeff''))) = 200
   \<and> (\<exists>email user k. table (ex_world True) email = Some user
         \<and> map_of user ''email'' = Some (VStr k)
         \<and> snd (unsubscribe ex_env (ex_world True)
               (ex_get ''/verify'' ''a@x.com'' ''00112233445566778899aabbccddeeff'')) =
             (ex_world True)\<lparr>table := (table (ex_world True))(k \<mapsto>
                item_set (item_set user ''verified'' (VBool False))
                  ''updated_at'' (VStr (now1 ex_env)))\<rparr>)\<close>
proof -
  let ?ev = "ex_get ''/verify'' ''a@x.com'' ''00112233445566778899aabbccddeeff''"
  let ?v = "verify ex_env_ses_down (ex_world False) ?ev"
  let ?u = "unsubscribe ex_env (ex_world True) ?ev"
  have sv: "statusCode (fst ?v) = 500"
    by (simp add: verify_def ex_get_def ex_env_def ex_env_ses_down_def ex_world_def
      ex_user_def query_get_def falsy_def get_user_def no_user_def item_get_def put_item_def
      read_file_def send_email_def internal_server_error_def statusCode_respond Let_def)
  have "item_get (the (table (snd ?v) ''a@x.com'')) ''verified'' = VBool True"
    by (simp add: verify_def ex_get_def ex_env_def ex_env_ses_down_def ex_world_def
      ex_user_def query_get_def falsy_def get_user_def no_user_def item_get_def put_item_def
      read_file_def send_email_def internal_server_error_def statusCode_respond Let_def)
  moreover have "item_get (the (table (ex_world False) ''a@x.com'')) ''verified'' = VBool False"
    by (simp add: ex_world_def ex_user_def item_get_def)
  ultimately have nv: "snd ?v \<noteq> ex_world False"
    by auto
  have su: "statusCode (fst ?u) = 200"
    by (simp add: unsubscribe_def ex_get_def ex_env_def ex_world_def
      ex_user_def query_get_def falsy_def get_user_def no_user_def item_get_def put_item_def
      statusCode_respond Let_def)
  from verify_unsubscribe_outcomes [of ex_env_ses_down "ex_world False" ?ev]
    verify_unsubscribe_outcomes [of ex_env "ex_world True" ?ev]
  show ?thesis
    by (simp add: sv su nv)
qed

end
